theory Spec2Isabelle
  imports Complex_Main
begin

section \<open>JavaScript strings\<close>

text \<open>
  The content processor works on JavaScript strings with regular expressions and a few
  string methods. A string is modelled as a \<^typ>\<open>string\<close>; a \<^typ>\<open>char\<close> stands for the
  code unit of the same number, so the development covers the strings whose code units
  are below 256 (ASCII and Latin-1). Numbers are modelled as exact reals.
\<close>

definition lower_ascii :: string where
  "lower_ascii = ''abcdefghijklmnopqrstuvwxyz''"

definition upper_ascii :: string where
  "upper_ascii = ''ABCDEFGHIJKLMNOPQRSTUVWXYZ''"

definition digits :: string where
  "digits = ''0123456789''"

text \<open>Latin-1 letters with a case partner inside the range: U+00C0..U+00DE without U+00D7,
  and U+00E0..U+00FE without U+00F7, in the same order.\<close>

definition upper_latin :: string where
  "upper_latin = [
     CHR 0xC0, CHR 0xC1, CHR 0xC2, CHR 0xC3, CHR 0xC4, CHR 0xC5, CHR 0xC6, CHR 0xC7,
     CHR 0xC8, CHR 0xC9, CHR 0xCA, CHR 0xCB, CHR 0xCC, CHR 0xCD, CHR 0xCE, CHR 0xCF,
     CHR 0xD0, CHR 0xD1, CHR 0xD2, CHR 0xD3, CHR 0xD4, CHR 0xD5, CHR 0xD6, CHR 0xD8,
     CHR 0xD9, CHR 0xDA, CHR 0xDB, CHR 0xDC, CHR 0xDD, CHR 0xDE]"

definition lower_latin :: string where
  "lower_latin = [
     CHR 0xE0, CHR 0xE1, CHR 0xE2, CHR 0xE3, CHR 0xE4, CHR 0xE5, CHR 0xE6, CHR 0xE7,
     CHR 0xE8, CHR 0xE9, CHR 0xEA, CHR 0xEB, CHR 0xEC, CHR 0xED, CHR 0xEE, CHR 0xEF,
     CHR 0xF0, CHR 0xF1, CHR 0xF2, CHR 0xF3, CHR 0xF4, CHR 0xF5, CHR 0xF6, CHR 0xF8,
     CHR 0xF9, CHR 0xFA, CHR 0xFB, CHR 0xFC, CHR 0xFD, CHR 0xFE]"

definition is_lower_ascii :: "char \<Rightarrow> bool" where
  "is_lower_ascii c = (c \<in> set lower_ascii)"

definition is_upper_ascii :: "char \<Rightarrow> bool" where
  "is_upper_ascii c = (c \<in> set upper_ascii)"

definition is_lower_latin :: "char \<Rightarrow> bool" where
  "is_lower_latin c = (c \<in> set lower_latin)"

definition is_upper_latin :: "char \<Rightarrow> bool" where
  "is_upper_latin c = (c \<in> set upper_latin)"

definition is_digit :: "char \<Rightarrow> bool" where
  "is_digit c = (c \<in> set digits)"

text \<open>A lower-case letter is 32 code units above its upper-case partner: the two differ in
  the bit of value 32 (\<open>b5\<close>) only.\<close>

fun add_32 :: "char \<Rightarrow> char" where
  "add_32 (Char b0 b1 b2 b3 b4 b5 b6 b7) = Char b0 b1 b2 b3 b4 True b6 b7"

fun sub_32 :: "char \<Rightarrow> char" where
  "sub_32 (Char b0 b1 b2 b3 b4 b5 b6 b7) = Char b0 b1 b2 b3 b4 False b6 b7"

definition lower_char :: "char \<Rightarrow> char" where
  "lower_char c = (if is_upper_ascii c \<or> is_upper_latin c then add_32 c else c)"

definition upper_char :: "char \<Rightarrow> char" where
  "upper_char c = (if is_lower_ascii c \<or> is_lower_latin c then sub_32 c else c)"

text \<open>\<open>String.prototype.toLowerCase\<close>.\<close>

definition toLowerCase :: "string \<Rightarrow> string" where
  "toLowerCase s = map lower_char s"

text \<open>White space and line terminators of ECMAScript (\<open>\s\<close>, \<open>trim\<close>): tab, line feed,
  vertical tab, form feed, carriage return, space, no-break space.\<close>

definition is_space :: "char \<Rightarrow> bool" where
  "is_space c =
     (c \<in> set [CHR 0x09, CHR 0x0A, CHR 0x0B, CHR 0x0C, CHR 0x0D, CHR 0x20, CHR 0xA0])"

text \<open>Line terminators (what \<open>.\<close> refuses without the \<open>s\<close> flag, and where \<open>^\<close> and \<open>$\<close>
  match with the \<open>m\<close> flag): line feed and carriage return.\<close>

definition is_line_terminator :: "char \<Rightarrow> bool" where
  "is_line_terminator c = (c = CHR 0x0A \<or> c = CHR 0x0D)"

text \<open>Word characters (\<open>\w\<close>, \<open>\b\<close>): \<open>[A-Za-z0-9_]\<close>.\<close>

definition is_word :: "char \<Rightarrow> bool" where
  "is_word c = (is_lower_ascii c \<or> is_upper_ascii c \<or> is_digit c \<or> c = CHR ''_'')"

subsection \<open>The character classes by the bits of a character\<close>

text \<open>The same classes read off the eight bits of a character (\<open>b0\<close> the lowest); these
  equations only serve to compute with concrete characters.\<close>

definition low5_letter :: "bool \<Rightarrow> bool \<Rightarrow> bool \<Rightarrow> bool \<Rightarrow> bool \<Rightarrow> bool" where
  "low5_letter b0 b1 b2 b3 b4 =
     ((b0 \<or> b1 \<or> b2 \<or> b3 \<or> b4) \<and> \<not> (b4 \<and> b3 \<and> (b2 \<or> (b1 \<and> b0))))"

definition low5_latin :: "bool \<Rightarrow> bool \<Rightarrow> bool \<Rightarrow> bool \<Rightarrow> bool \<Rightarrow> bool" where
  "low5_latin b0 b1 b2 b3 b4 =
     (\<not> (b0 \<and> b1 \<and> b2 \<and> b3 \<and> b4) \<and> \<not> (b0 \<and> b1 \<and> b2 \<and> \<not> b3 \<and> b4))"

lemma is_lower_ascii_Char [code]:
  "is_lower_ascii (Char b0 b1 b2 b3 b4 b5 b6 b7) =
     (\<not> b7 \<and> b6 \<and> b5 \<and> low5_letter b0 b1 b2 b3 b4)"
  by (cases b0; cases b1; cases b2; cases b3; cases b4; cases b5; cases b6; cases b7;
      simp add: is_lower_ascii_def lower_ascii_def low5_letter_def)

lemma is_upper_ascii_Char [code]:
  "is_upper_ascii (Char b0 b1 b2 b3 b4 b5 b6 b7) =
     (\<not> b7 \<and> b6 \<and> \<not> b5 \<and> low5_letter b0 b1 b2 b3 b4)"
  by (cases b0; cases b1; cases b2; cases b3; cases b4; cases b5; cases b6; cases b7;
      simp add: is_upper_ascii_def upper_ascii_def low5_letter_def)

lemma is_digit_Char [code]:
  "is_digit (Char b0 b1 b2 b3 b4 b5 b6 b7) =
     (\<not> b7 \<and> \<not> b6 \<and> b5 \<and> b4 \<and> \<not> (b3 \<and> (b2 \<or> b1)))"
  by (cases b0; cases b1; cases b2; cases b3; cases b4; cases b5; cases b6; cases b7;
      simp add: is_digit_def digits_def)

lemma is_space_Char [code]:
  "is_space (Char b0 b1 b2 b3 b4 b5 b6 b7) =
     (\<not> b6 \<and> \<not> b4 \<and>
      (if b5 then \<not> b0 \<and> \<not> b1 \<and> \<not> b2 \<and> \<not> b3
       else \<not> b7 \<and> b3 \<and> \<not> (b2 \<and> b1) \<and> (b2 \<or> b1 \<or> b0)))"
  by (cases b0; cases b1; cases b2; cases b3; cases b4; cases b5; cases b6; cases b7;
      simp add: is_space_def)

lemma is_lower_latin_Char [code]:
  "is_lower_latin (Char b0 b1 b2 b3 b4 b5 b6 b7) =
     (b7 \<and> b6 \<and> b5 \<and> low5_latin b0 b1 b2 b3 b4)"
  by (cases b0; cases b1; cases b2; cases b3; cases b4; cases b5; cases b6; cases b7;
      simp add: is_lower_latin_def lower_latin_def low5_latin_def)

lemma is_upper_latin_Char [code]:
  "is_upper_latin (Char b0 b1 b2 b3 b4 b5 b6 b7) =
     (b7 \<and> b6 \<and> \<not> b5 \<and> low5_latin b0 b1 b2 b3 b4)"
  by (cases b0; cases b1; cases b2; cases b3; cases b4; cases b5; cases b6; cases b7;
      simp add: is_upper_latin_def upper_latin_def low5_latin_def)

lemma upper_char_Char [code]:
  "upper_char (Char b0 b1 b2 b3 b4 b5 b6 b7) =
     (if b6 \<and> b5 \<and> (if b7 then low5_latin b0 b1 b2 b3 b4 else low5_letter b0 b1 b2 b3 b4)
      then Char b0 b1 b2 b3 b4 False b6 b7
      else Char b0 b1 b2 b3 b4 b5 b6 b7)"
  by (cases b5) (auto simp: upper_char_def is_lower_ascii_Char is_lower_latin_Char)

lemma lower_char_Char [code]:
  "lower_char (Char b0 b1 b2 b3 b4 b5 b6 b7) =
     (if b6 \<and> \<not> b5 \<and> (if b7 then low5_latin b0 b1 b2 b3 b4 else low5_letter b0 b1 b2 b3 b4)
      then Char b0 b1 b2 b3 b4 True b6 b7
      else Char b0 b1 b2 b3 b4 b5 b6 b7)"
  by (cases b5) (auto simp: lower_char_def is_upper_ascii_Char is_upper_latin_Char)

text \<open>\<open>String.prototype.trim\<close>.\<close>

definition trim :: "string \<Rightarrow> string" where
  "trim s = rev (dropWhile is_space (rev (dropWhile is_space s)))"

text \<open>\<open>String.prototype.includes\<close>.\<close>

fun startsWith :: "string \<Rightarrow> string \<Rightarrow> bool" where
  "startsWith s [] = True"
| "startsWith [] (p # ps) = False"
| "startsWith (c # cs) (p # ps) = (c = p \<and> startsWith cs ps)"

fun includesStr :: "string \<Rightarrow> string \<Rightarrow> bool" where
  "includesStr [] sub = (sub = [])"
| "includesStr (c # cs) sub = (startsWith (c # cs) sub \<or> includesStr cs sub)"

text \<open>\<open>String.prototype.split\<close> on one separator character and \<open>Array.prototype.join\<close>.\<close>

fun split :: "char \<Rightarrow> string \<Rightarrow> string list" where
  "split sep [] = [[]]"
| "split sep (c # cs) =
     (if c = sep then [] # split sep cs
      else (case split sep cs of l # ls \<Rightarrow> (c # l) # ls | [] \<Rightarrow> [[c]]))"

fun join :: "string \<Rightarrow> string list \<Rightarrow> string" where
  "join sep [] = []"
| "join sep [l] = l"
| "join sep (l # m # ls) = l @ sep @ join sep (m # ls)"

section \<open>Regular expressions\<close>

text \<open>
  The regular expressions of the source are values of a small syntax tree, matched by a
  backtracking matcher with the priorities of ECMAScript: the alternatives of a match are
  listed in the order in which the engine would try them, and the first one is the match.
\<close>

datatype citem = Chars string | Lower | Upper | Digit | Spc | Wrd

datatype rx =
    Chr char
  | Dot
  | Cls bool "citem list"
  | Bol
  | Eol
  | Wordb
  | Eps
  | Seq rx rx
  | Alt rx rx
  | Rep bool nat "nat option" rx
  | Grp nat rx
  | Nla rx

text \<open>\<open>Cls neg items\<close> is a character class, negated when \<open>neg\<close>, each item a list of
  characters, one of the ranges \<open>a-z\<close>, \<open>A-Z\<close>, \<open>0-9\<close>, \<open>\s\<close> or \<open>\w\<close>; \<open>Rep greedy min max r\<close> is
  a quantifier (\<open>max = None\<close>: unbounded); \<open>Grp n r\<close> is the capturing group number \<open>n\<close>;
  \<open>Nla r\<close> is the negative lookahead \<open>(?!r)\<close>.\<close>

record flags =
  ignoreCase :: bool
  multiline :: bool
  dotAll :: bool

text \<open>The state of a match: the character before the current position (none at the start of
  the input), the rest of the input, the number of characters consumed since the start of
  the match, and the captures made so far (latest first).\<close>

type_synonym mstate = "char option \<times> string \<times> nat \<times> (nat \<times> string) list"

definition chr_ok :: "flags \<Rightarrow> char \<Rightarrow> char \<Rightarrow> bool" where
  "chr_ok f p c = (if ignoreCase f then upper_char p = upper_char c else p = c)"

fun item_plain :: "citem \<Rightarrow> char \<Rightarrow> bool" where
  "item_plain (Chars cs) c = (c \<in> set cs)"
| "item_plain Lower c = is_lower_ascii c"
| "item_plain Upper c = is_upper_ascii c"
| "item_plain Digit c = is_digit c"
| "item_plain Spc c = is_space c"
| "item_plain Wrd c = is_word c"

definition item_ok :: "flags \<Rightarrow> char \<Rightarrow> citem \<Rightarrow> bool" where
  "item_ok f c i =
     (if ignoreCase f
      then item_plain i c \<or> item_plain i (upper_char c) \<or> item_plain i (lower_char c)
      else item_plain i c)"

definition cls_ok :: "flags \<Rightarrow> bool \<Rightarrow> citem list \<Rightarrow> char \<Rightarrow> bool" where
  "cls_ok f neg items c = (neg \<noteq> list_ex (item_ok f c) items)"

definition dot_ok :: "flags \<Rightarrow> char \<Rightarrow> bool" where
  "dot_ok f c = (dotAll f \<or> \<not> is_line_terminator c)"

definition at_bol :: "flags \<Rightarrow> char option \<Rightarrow> bool" where
  "at_bol f p = (case p of None \<Rightarrow> True | Some c \<Rightarrow> multiline f \<and> is_line_terminator c)"

definition at_eol :: "flags \<Rightarrow> string \<Rightarrow> bool" where
  "at_eol f s = (case s of [] \<Rightarrow> True | c # _ \<Rightarrow> multiline f \<and> is_line_terminator c)"

definition word_before :: "char option \<Rightarrow> bool" where
  "word_before p = (case p of None \<Rightarrow> False | Some c \<Rightarrow> is_word c)"

definition word_after :: "string \<Rightarrow> bool" where
  "word_after s = (case s of [] \<Rightarrow> False | c # _ \<Rightarrow> is_word c)"

fun one_char :: "(char \<Rightarrow> bool) \<Rightarrow> mstate \<Rightarrow> mstate list" where
  "one_char ok (p, [], k, g) = []"
| "one_char ok (p, c # cs, k, g) = (if ok c then [(Some c, cs, Suc k, g)] else [])"

fun prev_of :: "mstate \<Rightarrow> char option" where
  "prev_of (p, s, k, g) = p"

fun rest_of :: "mstate \<Rightarrow> string" where
  "rest_of (p, s, k, g) = s"

fun pos_of :: "mstate \<Rightarrow> nat" where
  "pos_of (p, s, k, g) = k"

fun capture :: "nat \<Rightarrow> mstate \<Rightarrow> mstate \<Rightarrow> mstate" where
  "capture n (p, s, k, g) (p', s', k', g') = (p', s', k', (n, take (k' - k) s) # g')"

fun rsize :: "rx \<Rightarrow> nat" where
  "rsize (Seq a b) = Suc (rsize a + rsize b)"
| "rsize (Alt a b) = Suc (rsize a + rsize b)"
| "rsize (Rep g mn mx r) = Suc (rsize r)"
| "rsize (Grp n r) = Suc (rsize r)"
| "rsize (Nla r) = Suc (rsize r)"
| "rsize r = 0"

text \<open>
  \<open>ends f r st\<close> lists the states in which a match of \<open>r\<close> started in \<open>st\<close> can end, in the
  order of the backtracking search. A greedy quantifier tries one more iteration before
  stopping, a lazy one stops first. An iteration that consumes nothing ends the
  repetition (the empty check of the ECMAScript RepeatMatcher).
\<close>

function ends :: "flags \<Rightarrow> rx \<Rightarrow> mstate \<Rightarrow> mstate list" where
  "ends f (Chr p) st = one_char (chr_ok f p) st"
| "ends f Dot st = one_char (dot_ok f) st"
| "ends f (Cls neg items) st = one_char (cls_ok f neg items) st"
| "ends f Bol st = (if at_bol f (prev_of st) then [st] else [])"
| "ends f Eol st = (if at_eol f (rest_of st) then [st] else [])"
| "ends f Wordb st = (if word_before (prev_of st) \<noteq> word_after (rest_of st) then [st] else [])"
| "ends f Eps st = [st]"
| "ends f (Seq a b) st = concat (map (ends f b) (ends f a st))"
| "ends f (Alt a b) st = ends f a st @ ends f b st"
| "ends f (Rep greedy mn mx r) st =
     (if mx = Some 0 then [st]
      else
        let more = concat (map (\<lambda>st'.
                     if length (rest_of st') < length (rest_of st)
                     then ends f (Rep greedy (mn - 1) (map_option (\<lambda>m. m - 1) mx) r) st'
                     else [])
                   (ends f r st))
        in if 0 < mn then more else if greedy then more @ [st] else st # more)"
| "ends f (Grp n r) st = map (capture n st) (ends f r st)"
| "ends f (Nla r) st = (if ends f r st = [] then [st] else [])"
  by pat_completeness auto
termination
  by (relation "measures [\<lambda>(f, r, st). rsize r, \<lambda>(f, r, st). length (rest_of st)]") auto

declare ends.simps(10) [simp del]



text \<open>Every end of a match is a suffix of the text it started on, and the state counts the
  characters in between.\<close>

lemma one_char_consumed:
  "st' \<in> set (one_char ok st) \<Longrightarrow>
     \<exists>m. rest_of st = m @ rest_of st' \<and> pos_of st' = pos_of st + length m"
  by (induction ok st rule: one_char.induct) (auto split: if_splits)

lemma capture_same [simp]:
  "rest_of (capture n st st') = rest_of st'" "pos_of (capture n st st') = pos_of st'"
  by (induction n st st' rule: capture.induct; simp)+

lemma ends_consumed:
  "st' \<in> set (ends f r st) \<Longrightarrow>
     \<exists>m. rest_of st = m @ rest_of st' \<and> pos_of st' = pos_of st + length m"
proof (induction f r st arbitrary: st' rule: ends.induct)
  case (1 f p st)
  then show ?case by (simp add: one_char_consumed)
next
  case (2 f st)
  then show ?case by (simp add: one_char_consumed)
next
  case (3 f neg items st)
  then show ?case by (simp add: one_char_consumed)
next
  case (4 f st)
  then show ?case by (simp split: if_splits)
next
  case (5 f st)
  then show ?case by (simp split: if_splits)
next
  case (6 f st)
  then show ?case by (simp split: if_splits)
next
  case (7 f st)
  then show ?case by simp
next
  case (8 f a b st)
  then obtain mid where mid: "mid \<in> set (ends f a st)" "st' \<in> set (ends f b mid)"
    by auto
  from "8.IH"(1)[OF mid(1)] obtain m1
    where m1: "rest_of st = m1 @ rest_of mid" "pos_of mid = pos_of st + length m1" by blast
  from "8.IH"(2)[OF mid(1) mid(2)] obtain m2
    where m2: "rest_of mid = m2 @ rest_of st'" "pos_of st' = pos_of mid + length m2" by blast
  from m1 m2 have "rest_of st = (m1 @ m2) @ rest_of st'"
    "pos_of st' = pos_of st + length (m1 @ m2)" by simp_all
  then show ?case by blast
next
  case (9 f a b st)
  from "9.prems" have "st' \<in> set (ends f a st) \<or> st' \<in> set (ends f b st)" by simp
  then show ?case using "9.IH" by blast
next
  case (10 f greedy mn mx r st)
  show ?case
  proof (cases "mx = Some 0")
    case True
    with "10.prems" show ?thesis by (simp add: ends.simps(10))
  next
    case False
    define more where "more = concat (map (\<lambda>e.
                     if length (rest_of e) < length (rest_of st)
                     then ends f (Rep greedy (mn - 1) (map_option (\<lambda>m. m - 1) mx) r) e
                     else [])
                   (ends f r st))"
    have eq: "ends f (Rep greedy mn mx r) st =
        (if 0 < mn then more else if greedy then more @ [st] else st # more)"
      using False unfolding more_def by (subst ends.simps) (simp add: Let_def)
    have "st' = st \<or> st' \<in> set more"
      using "10.prems" unfolding eq by (simp split: if_splits)
    then show ?thesis
    proof
      assume "st' = st"
      then show ?thesis by simp
    next
      assume "st' \<in> set more"
      then obtain mid where mid: "mid \<in> set (ends f r st)"
        "length (rest_of mid) < length (rest_of st)"
        "st' \<in> set (ends f (Rep greedy (mn - 1) (map_option (\<lambda>m. m - 1) mx) r) mid)"
        unfolding more_def by (auto split: if_splits)
      from "10.IH"(1)[OF False mid(1)] obtain m1
        where m1: "rest_of st = m1 @ rest_of mid" "pos_of mid = pos_of st + length m1" by blast
      from "10.IH"(2)[OF False mid(1) mid(2) mid(3)] obtain m2
        where m2: "rest_of mid = m2 @ rest_of st'" "pos_of st' = pos_of mid + length m2" by blast
      from m1 m2 have "rest_of st = (m1 @ m2) @ rest_of st'"
        "pos_of st' = pos_of st + length (m1 @ m2)" by simp_all
      then show ?thesis by blast
    qed
  qed
next
  case (11 f n r st)
  then obtain e where e: "e \<in> set (ends f r st)" "st' = capture n st e" by auto
  from "11.IH"[OF e(1)] obtain m
    where "rest_of st = m @ rest_of e" "pos_of e = pos_of st + length m" by blast
  with e(2) show ?case by auto
next
  case (12 f r st)
  then show ?case by (simp split: if_splits)
qed

text \<open>So the progress test of a quantifier can be read off the counters.\<close>

lemma ends_progress:
  assumes "st' \<in> set (ends f r st)"
  shows "length (rest_of st') < length (rest_of st) \<longleftrightarrow> pos_of st < pos_of st'"
proof -
  from ends_consumed[OF assms] obtain m
    where "rest_of st = m @ rest_of st'" "pos_of st' = pos_of st + length m" by blast
  then show ?thesis by auto
qed

lemma ends_Rep:
  "ends f (Rep greedy mn mx r) st =
     (if mx = Some 0 then [st]
      else
        let more = concat (map (\<lambda>st'.
                     if pos_of st < pos_of st'
                     then ends f (Rep greedy (mn - 1) (map_option (\<lambda>m. m - 1) mx) r) st'
                     else [])
                   (ends f r st))
        in if 0 < mn then more else if greedy then more @ [st] else st # more)"
proof -
  have eqm: "map (\<lambda>st'. if length (rest_of st') < length (rest_of st)
                 then ends f (Rep greedy (mn - 1) (map_option (\<lambda>m. m - 1) mx) r) st'
                 else []) (ends f r st) =
        map (\<lambda>st'. if pos_of st < pos_of st'
                 then ends f (Rep greedy (mn - 1) (map_option (\<lambda>m. m - 1) mx) r) st'
                 else []) (ends f r st)"
    by (rule map_cong[OF refl]) (simp add: ends_progress)
  show ?thesis by (subst ends.simps(10)) (simp only: eqm)
qed

section \<open>Searching, replacing and matching\<close>

text \<open>
  \<open>search f r p s\<close> is \<open>RegExp.prototype.exec\<close> on the text \<open>s\<close> that follows the
  character \<open>p\<close>: it tries every start position from the left, and returns the text
  skipped before the match, the matched text, the captures, the character before the
  rest and the rest.
\<close>

type_synonym found = "string \<times> string \<times> (nat \<times> string) list \<times> char option \<times> string"

definition match_here :: "flags \<Rightarrow> rx \<Rightarrow> char option \<Rightarrow> string \<Rightarrow> found option" where
  "match_here f r p s =
     (case ends f r (p, s, 0, []) of
        [] \<Rightarrow> None
      | (p', s', k, g) # _ \<Rightarrow> Some ([], take k s, g, p', s'))"

fun search :: "flags \<Rightarrow> rx \<Rightarrow> char option \<Rightarrow> string \<Rightarrow> found option" where
  "search f r p [] = match_here f r p []"
| "search f r p (c # cs) =
     (case match_here f r p (c # cs) of
        Some m \<Rightarrow> Some m
      | None \<Rightarrow>
          (case search f r (Some c) cs of
             None \<Rightarrow> None
           | Some (pre, m) \<Rightarrow> Some (c # pre, m)))"

lemma match_here_decomp:
  "match_here f r p s = Some (pre, m, g, p', s') \<Longrightarrow> s = pre @ m @ s'"
proof -
  assume a: "match_here f r p s = Some (pre, m, g, p', s')"
  then obtain k rest where e: "ends f r (p, s, 0, []) = (p', s', k, g) # rest"
    and pm: "pre = []" "m = take k s"
    by (auto simp: match_here_def split: list.splits)
  from e have "(p', s', k, g) \<in> set (ends f r (p, s, 0, []))" by simp
  from ends_consumed[OF this] obtain x where "s = x @ s'" "k = length x" by auto
  with pm show ?thesis by simp
qed

lemma search_decomp:
  "search f r p s = Some (pre, m, g, p', s') \<Longrightarrow> s = pre @ m @ s'"
proof (induction s arbitrary: p pre)
  case Nil
  then show ?case using match_here_decomp[of f r p "[]"] by simp
next
  case (Cons c cs)
  show ?case
  proof (cases "match_here f r p (c # cs)")
    case (Some x)
    with Cons.prems show ?thesis using match_here_decomp[of f r p "c # cs"] by simp
  next
    case None
    with Cons.prems obtain pre' where
      "search f r (Some c) cs = Some (pre', m, g, p', s')" "pre = c # pre'"
      by (auto split: option.splits)
    with Cons.IH[of "Some c" pre'] show ?thesis by simp
  qed
qed

subsection \<open>Skipping start positions\<close>

text \<open>
  A match that consumes a character starts with a character that its pattern admits
  first. \<open>nullable r\<close> holds when \<open>r\<close> may match without consuming anything (assertions
  count as such); \<open>first_ok f r c\<close> holds when a match of \<open>r\<close> may start with \<open>c\<close>. The
  search can pass over every position whose character is not admitted.
\<close>

fun nullable :: "rx \<Rightarrow> bool" where
  "nullable (Chr p) = False"
| "nullable Dot = False"
| "nullable (Cls neg items) = False"
| "nullable (Seq a b) = (nullable a \<and> nullable b)"
| "nullable (Alt a b) = (nullable a \<or> nullable b)"
| "nullable (Rep greedy mn mx r) = (mn = 0 \<or> mx = Some 0 \<or> nullable r)"
| "nullable (Grp n r) = nullable r"
| "nullable r = True"

fun first_ok :: "flags \<Rightarrow> rx \<Rightarrow> char \<Rightarrow> bool" where
  "first_ok f (Chr p) c = chr_ok f p c"
| "first_ok f Dot c = dot_ok f c"
| "first_ok f (Cls neg items) c = cls_ok f neg items c"
| "first_ok f (Seq a b) c = (if nullable a then first_ok f a c \<or> first_ok f b c else first_ok f a c)"
| "first_ok f (Alt a b) c = (first_ok f a c \<or> first_ok f b c)"
| "first_ok f (Rep greedy mn mx r) c = first_ok f r c"
| "first_ok f (Grp n r) c = first_ok f r c"
| "first_ok f r c = False"

lemma one_char_first:
  "st' \<in> set (one_char ok st) \<Longrightarrow> \<exists>c cs. rest_of st = c # cs \<and> ok c"
  by (induction ok st rule: one_char.induct) (auto split: if_splits)

lemma ends_first:
  "st' \<in> set (ends f r st) \<Longrightarrow>
     (pos_of st' = pos_of st \<and> nullable r) \<or> (\<exists>c cs. rest_of st = c # cs \<and> first_ok f r c)"
proof (induction f r st arbitrary: st' rule: ends.induct)
  case (1 f p st)
  then show ?case using one_char_first[of st' "chr_ok f p" st] by simp
next
  case (2 f st)
  then show ?case using one_char_first[of st' "dot_ok f" st] by simp
next
  case (3 f neg items st)
  then show ?case using one_char_first[of st' "cls_ok f neg items" st] by simp
next
  case (4 f st)
  then show ?case by (simp split: if_splits)
next
  case (5 f st)
  then show ?case by (simp split: if_splits)
next
  case (6 f st)
  then show ?case by (simp split: if_splits)
next
  case (7 f st)
  then show ?case by simp
next
  case (8 f a b st)
  then obtain mid where mid: "mid \<in> set (ends f a st)" "st' \<in> set (ends f b mid)"
    by auto
  from "8.IH"(1)[OF mid(1)]
  consider (same) "pos_of mid = pos_of st" "nullable a"
    | (first) "\<exists>c cs. rest_of st = c # cs \<and> first_ok f a c" by blast
  then show ?case
  proof cases
    case same
    from ends_consumed[OF mid(1)] same(1) have rest: "rest_of st = rest_of mid" by auto
    from "8.IH"(2)[OF mid(1) mid(2)] show ?thesis using same rest by auto
  next
    case first
    then show ?thesis by auto
  qed
next
  case (9 f a b st)
  from "9.prems" have "st' \<in> set (ends f a st) \<or> st' \<in> set (ends f b st)" by simp
  then show ?case
  proof
    assume "st' \<in> set (ends f a st)"
    from "9.IH"(1)[OF this] show ?thesis by auto
  next
    assume "st' \<in> set (ends f b st)"
    from "9.IH"(2)[OF this] show ?thesis by auto
  qed
next
  case (10 f greedy mn mx r st)
  show ?case
  proof (cases "mx = Some 0")
    case True
    with "10.prems" show ?thesis by (simp add: ends_Rep)
  next
    case False
    define more where "more = concat (map (\<lambda>e.
                     if pos_of st < pos_of e
                     then ends f (Rep greedy (mn - 1) (map_option (\<lambda>m. m - 1) mx) r) e
                     else [])
                   (ends f r st))"
    have eq: "ends f (Rep greedy mn mx r) st =
        (if 0 < mn then more else if greedy then more @ [st] else st # more)"
      using False unfolding more_def by (subst ends_Rep) (simp add: Let_def)
    have "(st' = st \<and> mn = 0) \<or> st' \<in> set more"
      using "10.prems" unfolding eq by (simp split: if_splits)
    then show ?thesis
    proof
      assume "st' = st \<and> mn = 0"
      then show ?thesis by simp
    next
      assume "st' \<in> set more"
      then obtain mid where mid: "mid \<in> set (ends f r st)" "pos_of st < pos_of mid"
        unfolding more_def by (auto split: if_splits)
      from "10.IH"(1)[OF False mid(1)] mid(2) show ?thesis by auto
    qed
  qed
next
  case (11 f n r st)
  then obtain e where e: "e \<in> set (ends f r st)" "st' = capture n st e" by auto
  from "11.IH"[OF e(1)] e(2) show ?case by auto
next
  case (12 f r st)
  then show ?case by (simp split: if_splits)
qed

lemma match_here_skip:
  assumes "\<not> nullable r" "\<not> first_ok f r c"
  shows "match_here f r p (c # cs) = None"
proof -
  have "ends f r (p, c # cs, 0, []) = []"
  proof (rule ccontr)
    assume "ends f r (p, c # cs, 0, []) \<noteq> []"
    then obtain st' where "st' \<in> set (ends f r (p, c # cs, 0, []))"
      by (cases "ends f r (p, c # cs, 0, [])") auto
    from ends_first[OF this] assms show False by simp
  qed
  then show ?thesis by (simp add: match_here_def)
qed

lemma search_Cons:
  "search f r p (c # cs) =
     (if nullable r \<or> first_ok f r c
      then (case match_here f r p (c # cs) of
              Some m \<Rightarrow> Some m
            | None \<Rightarrow>
                (case search f r (Some c) cs of
                   None \<Rightarrow> None
                 | Some (pre, m) \<Rightarrow> Some (c # pre, m)))
      else (case search f r (Some c) cs of
              None \<Rightarrow> None
            | Some (pre, m) \<Rightarrow> Some (c # pre, m)))"
  by (simp add: match_here_skip)

text \<open>A replacement is a function of the matched text and the captures; \<open>grp g n\<close> is
  \<open>$n\<close> (empty when the group did not take part).\<close>

definition grp :: "(nat \<times> string) list \<Rightarrow> nat \<Rightarrow> string" where
  "grp g n = (case map_of g n of None \<Rightarrow> [] | Some x \<Rightarrow> x)"

text \<open>\<open>String.prototype.replace\<close> with a regular expression without the \<open>g\<close> flag: the
  first match only.\<close>

definition replaceFirst ::
  "flags \<Rightarrow> rx \<Rightarrow> (string \<Rightarrow> (nat \<times> string) list \<Rightarrow> string) \<Rightarrow> string \<Rightarrow> string" where
  "replaceFirst f r repl s =
     (case search f r None s of
        None \<Rightarrow> s
      | Some (pre, m, g, p', s') \<Rightarrow> pre @ repl m g @ s')"

text \<open>With the \<open>g\<close> flag: every match from the left, the search resuming after each match,
  and one character further after an empty match.\<close>

function replaceFrom ::
  "flags \<Rightarrow> rx \<Rightarrow> (string \<Rightarrow> (nat \<times> string) list \<Rightarrow> string) \<Rightarrow> char option \<Rightarrow> string \<Rightarrow> string"
  where
  "replaceFrom f r repl p s =
     (case search f r p s of
        None \<Rightarrow> s
      | Some (pre, m, g, p', s') \<Rightarrow>
          pre @ repl m g @
            (if m = []
             then (case s' of [] \<Rightarrow> [] | c # cs \<Rightarrow> c # replaceFrom f r repl (Some c) cs)
             else replaceFrom f r repl p' s'))"
  by pat_completeness auto
termination
proof (relation "measure (\<lambda>(f, r, repl, p, s). length s)")
  show "wf (measure (\<lambda>(f, r, repl, p, s). length s))" by simp
next
  fix f r repl p s x2 pre y m ya g yb p' s' c cs
  assume "search f r p s = Some x2" "(pre, y) = x2" "(m, ya) = y" "(g, yb) = ya"
    "(p', s') = yb" "m = []" "s' = c # cs"
  then have "search f r p s = Some (pre, m, g, p', c # cs)" by simp
  from search_decomp[OF this]
  show "((f, r, repl, Some c, cs), (f, r, repl, p, s)) \<in> measure (\<lambda>(f, r, repl, p, s). length s)"
    by simp
next
  fix f r repl p s x2 pre y m ya g yb p' s'
  assume "search f r p s = Some x2" "(pre, y) = x2" "(m, ya) = y" "(g, yb) = ya"
    "(p', s') = yb" "m \<noteq> []"
  then have "search f r p s = Some (pre, m, g, p', s')" by simp
  from search_decomp[OF this] \<open>m \<noteq> []\<close>
  show "((f, r, repl, p', s'), (f, r, repl, p, s)) \<in> measure (\<lambda>(f, r, repl, p, s). length s)"
    by simp
qed

definition replaceAll ::
  "flags \<Rightarrow> rx \<Rightarrow> (string \<Rightarrow> (nat \<times> string) list \<Rightarrow> string) \<Rightarrow> string \<Rightarrow> string" where
  "replaceAll f r repl s = replaceFrom f r repl None s"

text \<open>\<open>String.prototype.match\<close> with the \<open>g\<close> flag: the list of the matched texts (the
  source reads \<open>null\<close> as the empty list).\<close>

function matchFrom :: "flags \<Rightarrow> rx \<Rightarrow> char option \<Rightarrow> string \<Rightarrow> string list" where
  "matchFrom f r p s =
     (case search f r p s of
        None \<Rightarrow> []
      | Some (pre, m, g, p', s') \<Rightarrow>
          m # (if m = []
               then (case s' of [] \<Rightarrow> [] | c # cs \<Rightarrow> matchFrom f r (Some c) cs)
               else matchFrom f r p' s'))"
  by pat_completeness auto
termination
proof (relation "measure (\<lambda>(f, r, p, s). length s)")
  show "wf (measure (\<lambda>(f, r, p, s). length s))" by simp
next
  fix f r p s x2 pre y m ya g yb p' s' c cs
  assume "search f r p s = Some x2" "(pre, y) = x2" "(m, ya) = y" "(g, yb) = ya"
    "(p', s') = yb" "m = []" "s' = c # cs"
  then have "search f r p s = Some (pre, m, g, p', c # cs)" by simp
  from search_decomp[OF this]
  show "((f, r, Some c, cs), (f, r, p, s)) \<in> measure (\<lambda>(f, r, p, s). length s)"
    by simp
next
  fix f r p s x2 pre y m ya g yb p' s'
  assume "search f r p s = Some x2" "(pre, y) = x2" "(m, ya) = y" "(g, yb) = ya"
    "(p', s') = yb" "m \<noteq> []"
  then have "search f r p s = Some (pre, m, g, p', s')" by simp
  from search_decomp[OF this] \<open>m \<noteq> []\<close>
  show "((f, r, p', s'), (f, r, p, s)) \<in> measure (\<lambda>(f, r, p, s). length s)"
    by simp
qed

definition matchAll :: "flags \<Rightarrow> rx \<Rightarrow> string \<Rightarrow> string list" where
  "matchAll f r s = matchFrom f r None s"

text \<open>Without the \<open>g\<close> flag: the first match with its captures, or nothing.\<close>

definition matchFirst :: "flags \<Rightarrow> rx \<Rightarrow> string \<Rightarrow> (string \<times> (nat \<times> string) list) option" where
  "matchFirst f r s =
     (case search f r None s of
        None \<Rightarrow> None
      | Some (pre, m, g, p', s') \<Rightarrow> Some (m, g))"

text \<open>Notation for the patterns.\<close>

definition Lit :: "string \<Rightarrow> rx" where
  "Lit s = foldr (\<lambda>c r. Seq (Chr c) r) s Eps"

definition Seqs :: "rx list \<Rightarrow> rx" where
  "Seqs rs = foldr Seq rs Eps"

definition Star :: "rx \<Rightarrow> rx" where
  "Star r = Rep True 0 None r"

definition Plus :: "rx \<Rightarrow> rx" where
  "Plus r = Rep True 1 None r"

definition Opt :: "rx \<Rightarrow> rx" where
  "Opt r = Rep True 0 (Some 1) r"

definition LazyStar :: "rx \<Rightarrow> rx" where
  "LazyStar r = Rep False 0 None r"

definition AtLeast :: "nat \<Rightarrow> rx \<Rightarrow> rx" where
  "AtLeast n r = Rep True n None r"

definition Not :: "char \<Rightarrow> rx" where
  "Not c = Cls True [Chars [c]]"

definition Space :: rx where
  "Space = Cls False [Spc]"

definition flags_of :: "bool \<Rightarrow> bool \<Rightarrow> bool \<Rightarrow> flags" where
  "flags_of i m s = \<lparr>ignoreCase = i, multiline = m, dotAll = s\<rparr>"


definition fl_g :: flags where "fl_g = flags_of False False False"
definition fl_i :: flags where "fl_i = flags_of True False False"
definition fl_gi :: flags where "fl_gi = flags_of True False False"
definition fl_gm :: flags where "fl_gm = flags_of False True False"
definition fl_gim :: flags where "fl_gim = flags_of True True False"
definition fl_is :: flags where "fl_is = flags_of True False True"
definition fl_gis :: flags where "fl_gis = flags_of True False True"
definition fl_none :: flags where "fl_none = flags_of False False False"

section \<open>The content processor\<close>

text \<open>Modelled from the spec: the type \<open>HIGSection\<close> is declared in \<open>types.ts\<close>, which is
  not among the sources; the spec gives its fields (id, title, url, platform, category).
  Platform and category are the strings they are at run time.\<close>

record HIGSection =
  id :: string
  title :: string
  url :: string
  platform :: string
  category :: string

record ContentQualityMetrics =
  score :: real
  lengthN :: nat
  structureScore :: real
  appleTermsScore :: real
  codeExamplesCount :: real
  imageReferencesCount :: nat
  headingCount :: nat
  isFallbackContent :: bool
  extractionMethod :: string
  confidence :: real

record ProcessedContent =
  cleanedMarkdown :: string
  frontMatter :: string
  quality :: ContentQualityMetrics
  "keywords" :: "string list"
  relatedSections :: "string list"

definition appleDesignTerms :: "string list" where
  "appleDesignTerms =
    [''accessibility'', ''animation'', ''branding'', ''buttons'', ''color'', ''controls'',
     ''design'', ''feedback'', ''gestures'', ''haptics'', ''icons'', ''images'', ''input'',
     ''interface'', ''layout'', ''materials'', ''motion'', ''navigation'', ''presentation'',
     ''selection'', ''status'', ''system'', ''typography'', ''visual'', ''widgets'',
     ''human interface guidelines'', ''user experience'', ''user interface'',
     ''touch target'', ''dynamic type'', ''voiceover'', ''dark mode'', ''light mode'']"

definition fallbackIndicators :: "string list" where
  "fallbackIndicators =
    [''this page requires javascript'',
     ''please turn on javascript'',
     ''javascript is required'',
     ''single page application'',
     ''content not available'',
     ''loading...'',
     ''page not found'',
     ''skip navigation'',
     ''refresh the page to view'']"

definition appleSPAIndicators :: "string list" where
  "appleSPAIndicators =
    [''skip navigation'',
     ''current page is'',
     ''supported platforms'',
     ''change log'',
     ''platform considerations'',
     ''additional considerations for'',
     ''no additional considerations for'']"

subsection \<open>cleanHtml\<close>

definition cleanHtml :: "string \<Rightarrow> string" where
  "cleanHtml html =
    (let cleaned = html;
         cleaned = replaceAll fl_gi
           (Seqs [Lit ''<script'', Wordb, Star (Not CHR ''<''),
                  Star (Seqs [Nla (Lit ''</script>''), Chr CHR ''<'', Star (Not CHR ''<'')]),
                  Lit ''</script>''])
           (\<lambda>m g. '' '') cleaned;
         cleaned = replaceAll fl_gi
           (Seqs [Lit ''<style'', Wordb, Star (Not CHR ''<''),
                  Star (Seqs [Nla (Lit ''</style>''), Chr CHR ''<'', Star (Not CHR ''<'')]),
                  Lit ''</style>''])
           (\<lambda>m g. '' '') cleaned;
         cleaned = replaceAll fl_gi
           (Seqs [Lit ''<nav'', Wordb, Star (Not CHR ''>''), Chr CHR ''>'', LazyStar Dot,
                  Lit ''</nav>''])
           (\<lambda>m g. '' '') cleaned;
         cleaned = replaceAll fl_gi
           (Seqs [Lit ''<footer'', Wordb, Star (Not CHR ''>''), Chr CHR ''>'', LazyStar Dot,
                  Lit ''</footer>''])
           (\<lambda>m g. '' '') cleaned;
         cleaned = replaceAll fl_gi
           (Seqs [Lit ''<header'', Wordb, Star (Not CHR ''>''), Chr CHR ''>'', LazyStar Dot,
                  Lit ''</header>''])
           (\<lambda>m g. '' '') cleaned;
         cleaned = replaceAll fl_gi
           (Seqs [Lit ''class='', Chr (CHR 0x22), Star (Not (CHR 0x22)), Lit ''breadcrumb'',
                  Star (Not (CHR 0x22)), Chr (CHR 0x22)])
           (\<lambda>m g. []) cleaned;
         cleaned = replaceAll fl_gi
           (Seqs [Lit ''class='', Chr (CHR 0x22), Star (Not (CHR 0x22)), Lit ''navigation'',
                  Star (Not (CHR 0x22)), Chr (CHR 0x22)])
           (\<lambda>m g. []) cleaned;
         cleaned = replaceAll fl_g (Plus Space) (\<lambda>m g. '' '') cleaned
     in cleaned)"

subsection \<open>cleanMarkdown and its passes\<close>

definition removeAppleSPAMetadata :: "string \<Rightarrow> string" where
  "removeAppleSPAMetadata content =
    (let cleaned = content;
         cleaned = replaceAll fl_gi
           (Seqs [Lit ''platform considerations'', Star Space,
                  Lit ''no additional considerations for'', LazyStar Dot, Chr CHR ''.''])
           (\<lambda>m g. []) cleaned;
         cleaned = replaceAll fl_gi
           (Seqs [Lit ''current page is '', Plus (Cls False [Wrd]), Star Space])
           (\<lambda>m g. []) cleaned;
         cleaned = replaceAll fl_gi
           (Seqs [Lit ''supported platforms'', Star Dot, Eol])
           (\<lambda>m g. []) cleaned
     in cleaned)"

text \<open>The filter of \<open>removeRepeatedTitles\<close>, with the map \<open>titleCounts\<close> passed along.\<close>

fun filterTitles :: "(string \<rightharpoonup> nat) \<Rightarrow> string list \<Rightarrow> string list" where
  "filterTitles titleCounts [] = []"
| "filterTitles titleCounts (line # lines) =
    (case matchFirst fl_none
            (Seqs [Bol, Plus (Chr CHR ''#''), Star Space, Grp 1 (Plus Dot), Eol]) line of
       Some (m, g) \<Rightarrow>
         (let title = trim (toLowerCase (grp g 1));
              count = (case titleCounts title of None \<Rightarrow> 0 | Some n \<Rightarrow> n);
              titleCounts = titleCounts(title \<mapsto> count + 1)
          in if count = 0 \<or> length line > 20
             then line # filterTitles titleCounts lines
             else filterTitles titleCounts lines)
     | None \<Rightarrow> line # filterTitles titleCounts lines)"

definition removeRepeatedTitles :: "string \<Rightarrow> string" where
  "removeRepeatedTitles content =
    (let lines = split (CHR 0x0A) content
     in join [CHR 0x0A] (filterTitles Map.empty lines))"

definition higTerms :: "string list" where
  "higTerms =
    [''Best practices'', ''Guidelines'', ''When to use'', ''How to use'',
     ''iOS'', ''macOS'', ''watchOS'', ''tvOS'', ''visionOS'',
     ''Tab bar'', ''Navigation bar'', ''Button'', ''Picker'', ''Slider'',
     ''Action sheet'', ''Alert'', ''Popover'', ''Sheet'',
     ''Accessibility'', ''VoiceOver'', ''Dynamic Type'',
     ''SF Symbols'', ''App Store'']"

definition lowerAZ :: rx where "lowerAZ = Cls False [Lower]"
definition upperAZ :: rx where "upperAZ = Cls False [Upper]"
definition digit09 :: rx where "digit09 = Cls False [Digit]"
definition letterAZ :: rx where "letterAZ = Cls False [Upper, Lower]"

text \<open>The body of the loop over \<open>higTerms\<close> in \<open>fixWordConcatenation\<close>.\<close>

definition fixTerm :: "string \<Rightarrow> string \<Rightarrow> string" where
  "fixTerm term fixed =
    (let termNoSpaces = replaceAll fl_g (Plus Space) (\<lambda>m g. []) term;
         regex = Seq (Grp 1 (AtLeast 2 lowerAZ)) (Lit termNoSpaces);
         fixed = replaceAll fl_gi regex
           (\<lambda>match g. let prefix = grp g 1
                      in if length prefix < 3 then match else prefix @ '' '' @ term) fixed;
         reverseRegex = Seq (Lit termNoSpaces) (Grp 1 (Seq upperAZ (AtLeast 2 lowerAZ)));
         fixed = replaceAll fl_gi reverseRegex
           (\<lambda>match g.
              (case matchFirst fl_i (Seq (Lit termNoSpaces) (Grp 1 (Plus Dot))) match of
                 Some (m', g') \<Rightarrow>
                   if length (grp g' 1) > 2 then term @ '' '' @ grp g' 1 else match
               | None \<Rightarrow> match)) fixed
     in fixed)"

definition fixWordConcatenation :: "string \<Rightarrow> string" where
  "fixWordConcatenation content =
    (let fixed = content;
         fixed = replaceAll fl_g (Seq (Grp 1 lowerAZ) (Grp 2 upperAZ))
           (\<lambda>m g. grp g 1 @ '' '' @ grp g 2) fixed;
         fixed = foldl (\<lambda>fixed term. fixTerm term fixed) fixed higTerms;
         fixed = replaceAll fl_g (Seqs [Grp 1 lowerAZ, Chr CHR ''.'', Grp 2 upperAZ])
           (\<lambda>m g. grp g 1 @ ''. '' @ grp g 2) fixed;
         fixed = replaceAll fl_g (Seqs [Grp 1 lowerAZ, Chr CHR ''!'', Grp 2 upperAZ])
           (\<lambda>m g. grp g 1 @ ''! '' @ grp g 2) fixed;
         fixed = replaceAll fl_g (Seqs [Grp 1 lowerAZ, Chr CHR ''?'', Grp 2 upperAZ])
           (\<lambda>m g. grp g 1 @ ''? '' @ grp g 2) fixed;
         fixed = replaceAll fl_g (Seq (Grp 1 digit09) (Grp 2 letterAZ))
           (\<lambda>m g. grp g 1 @ '' '' @ grp g 2) fixed;
         fixed = replaceAll fl_g (Seq (Grp 1 letterAZ) (Grp 2 digit09))
           (\<lambda>m g. grp g 1 @ '' '' @ grp g 2) fixed
     in fixed)"

definition trailingSections :: "rx list" where
  "trailingSections =
    [Seqs [Lit ''resource'', Opt (Chr CHR ''s''), Star Space, Lit ''related'', LazyStar Dot,
           Lit ''change log'', Star Dot, Eol],
     Seqs [Lit ''change log'', Star Space, Lit ''date'', Star Space, Lit ''changes'',
           Star Dot, Eol],
     Seqs [Lit ''videos'', Star Space, Lit ''discoverable design'', Star Dot, Eol],
     Seqs [Lit ''platform considerations'', LazyStar Dot, Lit ''resources'', Star Dot, Eol]]"

definition removeTrailingMetadata :: "string \<Rightarrow> string" where
  "removeTrailingMetadata content =
    (let cleaned = content;
         cleaned = foldl (\<lambda>cleaned pattern. replaceAll fl_gis pattern (\<lambda>m g. []) cleaned)
                     cleaned trailingSections
     in trim cleaned)"

definition cleanMarkdown :: "string \<Rightarrow> string" where
  "cleanMarkdown markdown =
    (let cleaned = markdown;
         cleaned = replaceFirst fl_is
           (Seqs [Bol, LazyStar Dot, Lit ''this page requires javascript'', LazyStar Dot,
                  Lit ''refresh the page to view its content'', Opt (Chr CHR ''.''),
                  Star Space])
           (\<lambda>m g. []) cleaned;
         cleaned = replaceFirst fl_is
           (Seqs [Bol, Chr CHR ''#'', Star Space, Lit ''this page requires javascript'',
                  Opt (Chr CHR ''.''), Star Space, Lit ''please turn on javascript'',
                  LazyStar Dot, Star Space])
           (\<lambda>m g. []) cleaned;
         cleaned = replaceAll fl_gim
           (Seqs [Bol, Chr CHR ''#'', Star Space, Lit ''this page requires javascript'',
                  Opt (Chr CHR ''.''), Star Space])
           (\<lambda>m g. []) cleaned;
         cleaned = replaceAll fl_gim
           (Seqs [Lit ''please turn on javascript'', LazyStar Dot, Lit ''content'',
                  Chr CHR ''.'', Star Space])
           (\<lambda>m g. []) cleaned;
         cleaned = replaceAll fl_gi (Seqs [Lit ''skip navigation'', Star Space])
           (\<lambda>m g. []) cleaned;
         cleaned = removeAppleSPAMetadata cleaned;
         cleaned = removeRepeatedTitles cleaned;
         cleaned = replaceAll fl_g (AtLeast 3 (Chr (CHR 0x0A)))
           (\<lambda>m g. [CHR 0x0A, CHR 0x0A]) cleaned;
         cleaned = replaceAll fl_gm
           (Seqs [Plus (Cls False [Chars [CHR '' '', CHR 0x09]]), Eol])
           (\<lambda>m g. []) cleaned;
         cleaned = replaceAll fl_g
           (Plus (Cls False [Chars [CHR '' '', CHR 0x09]]))
           (\<lambda>m g. '' '') cleaned;
         cleaned = replaceAll fl_g
           (Seq (Grp 1 (Not (CHR 0x0A))) (Grp 2 (Seq (Plus (Chr CHR ''#'')) Space)))
           (\<lambda>m g. grp g 1 @ [CHR 0x0A, CHR 0x0A] @ grp g 2) cleaned;
         cleaned = replaceAll fl_g
           (Seq (Grp 1 (Seqs [Plus (Chr CHR ''#''), Space, Plus (Not (CHR 0x0A))]))
                (Grp 2 (Not (CHR 0x0A))))
           (\<lambda>m g. grp g 1 @ [CHR 0x0A, CHR 0x0A] @ grp g 2) cleaned;
         cleaned = replaceAll fl_g
           (Seqs [Chr CHR ''['', Grp 1 (Star (Not CHR '']'')), Lit '']()''])
           (\<lambda>m g. grp g 1) cleaned;
         cleaned = replaceAll fl_gm
           (Seqs [Bol, Plus (Chr CHR ''#''), Star Space, Eol])
           (\<lambda>m g. []) cleaned;
         cleaned = replaceAll fl_gm
           (Seqs [Bol, Star Space, Cls False [Chars ''*+''],
                  Space])
           (\<lambda>m g. ''- '') cleaned;
         cleaned = fixWordConcatenation cleaned;
         cleaned = removeTrailingMetadata cleaned
     in trim cleaned)"

subsection \<open>Keywords and related sections\<close>

text \<open>\<open>Set.prototype.add\<close> on a set kept as the list of its elements in insertion order.\<close>

definition set_add :: "'a \<Rightarrow> 'a list \<Rightarrow> 'a list" where
  "set_add x xs = (if x \<in> set xs then xs else xs @ [x])"

definition extractKeywords :: "string \<Rightarrow> HIGSection \<Rightarrow> string list" where
  "extractKeywords content section =
    (let keywords = [];
         keywords = set_add (toLowerCase (title section)) keywords;
         keywords = set_add (toLowerCase (platform section)) keywords;
         keywords = set_add (toLowerCase (category section)) keywords;
         words = matchAll fl_g (Seqs [Wordb, AtLeast 3 lowerAZ, Wordb]) (toLowerCase content);
         keywords = foldl (\<lambda>keywords word.
                      if word \<in> set appleDesignTerms then set_add word keywords else keywords)
                    keywords words
     in take 20 keywords)"

text \<open>\<open>link.slice(1, -1)\<close>.\<close>

definition slice_1_m1 :: "string \<Rightarrow> string" where
  "slice_1_m1 link = butlast (tl link)"

definition extractRelatedSections :: "string \<Rightarrow> HIGSection \<Rightarrow> string list" where
  "extractRelatedSections content section =
    (let related = [];
         seeAlsoMatch = matchFirst fl_i
           (Seqs [Lit ''see also'', Plus (Cls False [Chars '':'', Spc]), Grp 1 (LazyStar Dot),
                  Alt (Chr (CHR 0x0A)) Eol]) content;
         related = (case seeAlsoMatch of
             Some (m, g) \<Rightarrow>
               (let links = matchAll fl_g
                      (Seqs [Chr CHR ''['', Grp 1 (Plus (Not CHR '']'')), Chr CHR '']''])
                      (grp g 1)
                in foldl (\<lambda>related link. set_add (slice_1_m1 link) related) related links)
           | None \<Rightarrow> related)
     in take 5 related)"

subsection \<open>Quality metrics\<close>

definition detectFallbackContent :: "string \<Rightarrow> string option \<Rightarrow> bool" where
  "detectFallbackContent content originalContent =
    (let contentLower = toLowerCase content;
         originalLower = (case originalContent of
             None \<Rightarrow> contentLower
           | Some orig \<Rightarrow> if toLowerCase orig = [] then contentLower else toLowerCase orig);
         hasSubstantialRealContent = (length content > 500 \<and>
           (includesStr contentLower ''best practices'' \<or>
            includesStr contentLower ''guideline'' \<or>
            includesStr contentLower ''accessibility'' \<or>
            includesStr contentLower ''consider'' \<or>
            includesStr contentLower ''ensure'' \<or>
            includesStr contentLower ''avoid''))
     in if hasSubstantialRealContent then False
        else
          (let hasFallbackIndicators = list_ex (\<lambda>indicator.
                 includesStr contentLower indicator \<or> includesStr originalLower indicator)
                 fallbackIndicators;
               isTooShort = (length content < 200);
               hasOnlySPAIndicators = list_ex (\<lambda>indicator.
                 includesStr contentLower indicator \<or> includesStr originalLower indicator)
                 appleSPAIndicators;
               hasJavaScriptIssues =
                 ((includesStr contentLower ''javascript'' \<or> includesStr originalLower ''javascript'') \<and>
                  (includesStr contentLower ''required'' \<or> includesStr contentLower ''turn on'' \<or>
                   includesStr originalLower ''required'' \<or> includesStr originalLower ''turn on''))
           in hasFallbackIndicators \<or> (hasJavaScriptIssues \<and> \<not> hasSubstantialRealContent) \<or>
              (isTooShort \<and> hasOnlySPAIndicators)))"

definition calculateQualityMetrics :: "string \<Rightarrow> string option \<Rightarrow> ContentQualityMetrics" where
  "calculateQualityMetrics content originalContent =
    (let len = length content;
         headingCount = length (matchAll fl_gm (Seq Bol (Plus (Chr CHR ''#''))) content);
         codeExamplesCount = real (length (matchAll fl_g (Lit ''```'') content)) / 2;
         imageReferencesCount =
           length (matchAll fl_g (Seqs [Lit ''!['', LazyStar Dot, Chr CHR '']'']) content);
         isFallbackContent = detectFallbackContent content originalContent;
         hasAppleSPAIssues = list_ex (\<lambda>indicator. includesStr (toLowerCase content) indicator)
                               appleSPAIndicators;
         structureScore = min 1 (real headingCount * (1 / 10) + codeExamplesCount * (2 / 10));
         appleTermsFound = length (filter (\<lambda>term. includesStr (toLowerCase content) term)
                                     appleDesignTerms);
         appleTermsScore = min 1 (real appleTermsFound / 10);
         hasSubstantialContent = (len > 400);
         hasGuidelines = (includesStr (toLowerCase content) ''best practices'' \<or>
                          includesStr (toLowerCase content) ''guideline'' \<or>
                          includesStr (toLowerCase content) ''consider'' \<or>
                          includesStr (toLowerCase content) ''avoid'' \<or>
                          includesStr (toLowerCase content) ''should'' \<or>
                          includesStr (toLowerCase content) ''when'');
         guidelineScore = (if hasGuidelines then 4 / 10 else 0);
         structureBonus = (if headingCount \<ge> 2 then 2 / 10 else 0);
         score = (if isFallbackContent then 1 / 10
                  else if hasAppleSPAIssues \<and> \<not> hasSubstantialContent then 3 / 10
                  else (let lengthScore = min 1 (real len / 800)
                        in lengthScore * (2 / 10) + structureScore * (15 / 100) +
                           appleTermsScore * (15 / 100) + guidelineScore * (35 / 100) +
                           structureBonus * (15 / 100)))
     in \<lparr>score = min 1 score,
         lengthN = len,
         structureScore = structureScore,
         appleTermsScore = appleTermsScore,
         codeExamplesCount = codeExamplesCount,
         imageReferencesCount = imageReferencesCount,
         headingCount = headingCount,
         isFallbackContent = isFallbackContent,
         extractionMethod = ''turndown-enhanced'',
         confidence = (if isFallbackContent then 1 / 10 else min 1 (score + 1 / 10))\<rparr>)"

subsection \<open>Front matter\<close>

text \<open>Decimal digits of a natural number (\<open>Number.prototype.toString\<close> on an integer).\<close>

function natToString :: "nat \<Rightarrow> string" where
  "natToString n = (if n < 10 then [digits ! n] else natToString (n div 10) @ [digits ! (n mod 10)])"
  by pat_completeness auto
termination
  by (relation "measure (\<lambda>n. n)") auto

declare natToString.simps [simp del]

text \<open>\<open>Math.round\<close>: the nearest integer, a tie going up.\<close>

definition mathRound :: "real \<Rightarrow> int" where
  "mathRound x = \<lfloor>x + 1 / 2\<rfloor>"

text \<open>\<open>Number.prototype.toString\<close> on a non-negative number of at most two decimals, which is
  what \<open>Math.round(score * 100) / 100\<close> is: the integer part, then the decimals without
  trailing zeros.\<close>

definition numberToString :: "real \<Rightarrow> string" where
  "numberToString x =
    (let k = nat \<lfloor>x * 100\<rfloor>; d1 = (k div 10) mod 10; d2 = k mod 10
     in natToString (k div 100) @
        (if d1 = 0 \<and> d2 = 0 then []
         else ''.'' @ [digits ! d1] @ (if d2 = 0 then [] else [digits ! d2])))"

definition boolToString :: "bool \<Rightarrow> string" where
  "boolToString b = (if b then ''true'' else ''false'')"

text \<open>\<open>JSON.stringify\<close> on an array of strings: quotation marks and backslashes are
  escaped, control characters are written as their short escape or as \<open>\u00XX\<close>.\<close>

definition hexDigit :: "nat \<Rightarrow> char" where
  "hexDigit n = ''0123456789abcdef'' ! n"

definition jsonEscape :: "char \<Rightarrow> string" where
  "jsonEscape c =
    (if c = CHR 0x22 then [CHR 0x5C, CHR 0x22]
     else if c = CHR 0x5C then [CHR 0x5C, CHR 0x5C]
     else if c = CHR 0x08 then [CHR 0x5C, CHR ''b'']
     else if c = CHR 0x0C then [CHR 0x5C, CHR ''f'']
     else if c = CHR 0x0A then [CHR 0x5C, CHR ''n'']
     else if c = CHR 0x0D then [CHR 0x5C, CHR ''r'']
     else if c = CHR 0x09 then [CHR 0x5C, CHR ''t'']
     else if (of_char c :: nat) < 32
       then [CHR 0x5C, CHR ''u'', CHR ''0'', CHR ''0'',
             hexDigit (of_char c div 16), hexDigit (of_char c mod 16)]
     else [c])"

definition jsonString :: "string \<Rightarrow> string" where
  "jsonString s = [CHR 0x22] @ concat (map jsonEscape s) @ [CHR 0x22]"

definition jsonStringArray :: "string list \<Rightarrow> string" where
  "jsonStringArray xs = ''['' @ join '','' (map jsonString xs) @ '']''"

text \<open>The current time is read from the system clock (\<open>new Date().toISOString()\<close>); the
  model takes the string read as the argument \<open>now\<close>.\<close>

definition generateFrontMatter ::
  "HIGSection \<Rightarrow> ContentQualityMetrics \<Rightarrow> string list \<Rightarrow> string \<Rightarrow> string" where
  "generateFrontMatter section qual kwds now =
    (let frontMatter =
       [''title: '' @ title section,
        ''platform: '' @ platform section,
        ''category: '' @ category section,
        ''url: '' @ url section,
        ''quality_score: '' @ numberToString (real_of_int (mathRound (score qual * 100)) / 100),
        ''content_length: '' @ natToString (lengthN qual),
        ''last_updated: '' @ now,
        ''keywords: '' @ jsonStringArray kwds,
        ''has_code_examples: '' @ boolToString (codeExamplesCount qual > 0),
        ''has_images: '' @ boolToString (imageReferencesCount qual > 0),
        ''is_fallback: '' @ boolToString (isFallbackContent qual)]
     in ''---'' @ [CHR 0x0A] @ join [CHR 0x0A] frontMatter @ [CHR 0x0A] @ ''---'' @
        [CHR 0x0A, CHR 0x0A])"

subsection \<open>processContent\<close>

text \<open>The conversion of the cleaned HTML to Markdown is done by the Turndown library, which
  is not part of the repository: the model takes the converter as the argument
  \<open>turndown\<close>.\<close>

definition processContent ::
  "(string \<Rightarrow> string) \<Rightarrow> string \<Rightarrow> string \<Rightarrow> HIGSection \<Rightarrow> ProcessedContent" where
  "processContent turndown now html section =
    (let cleanedHtml = cleanHtml html;
         rawMarkdown = turndown cleanedHtml;
         cleanedMarkdown = cleanMarkdown rawMarkdown;
         keywords = extractKeywords cleanedMarkdown section;
         relatedSections = extractRelatedSections cleanedMarkdown section;
         quality = calculateQualityMetrics cleanedMarkdown (Some rawMarkdown);
         frontMatter = generateFrontMatter section quality keywords now
     in \<lparr>cleanedMarkdown = cleanedMarkdown,
         frontMatter = frontMatter,
         quality = quality,
         keywords = keywords,
         relatedSections = relatedSections\<rparr>)"

section \<open>Properties of the content processor\<close>

text \<open>A section and a clock reading to compute with.\<close>

definition section0 :: HIGSection where
  "section0 = \<lparr>id = ''buttons-ios'', title = ''Buttons'',
                url = ''https://developer.apple.com/design/human-interface-guidelines/buttons'',
                platform = ''iOS'', category = ''visual-design''\<rparr>"

definition now0 :: string where
  "now0 = ''2025-06-26T23:28:14.501Z''"

subsection \<open>Fallback content and the score\<close>

lemma min_tenth: "\<not> (min 1 x = 1 / 10 \<and> min 1 (x + 1 / 10) = (1 / 10 :: real))"
  by (auto simp: min_def)

lemma fallback_general:
  "fb \<longleftrightarrow> min 1 (if fb then 1 / 10 else x) = 1 / 10 \<and>
      (if fb then 1 / 10 else min 1 ((if fb then 1 / 10 else x) + 1 / 10)) = (1 / 10 :: real)"
  using min_tenth[of x] by (cases fb) simp_all

lemma quality_fallback_iff:
  "isFallbackContent (calculateQualityMetrics c orig) \<longleftrightarrow>
     score (calculateQualityMetrics c orig) = 1 / 10 \<and>
     confidence (calculateQualityMetrics c orig) = 1 / 10"
  unfolding calculateQualityMetrics_def Let_def ContentQualityMetrics.simps
  by (rule fallback_general)

lemma quality_processContent:
  "quality (processContent turndown now html sec) =
     calculateQualityMetrics (cleanMarkdown (turndown (cleanHtml html)))
       (Some (turndown (cleanHtml html)))"
  unfolding processContent_def Let_def ProcessedContent.simps by (rule refl)

text \<open>
  Claim C2. For every input, the quality metrics of the processed content say fallback
  content exactly when the score is 0.1 and the confidence is 0.1.
\<close>

theorem fallback_iff_low_score:
  "isFallbackContent (quality (processContent turndown now html sec)) \<longleftrightarrow>
     score (quality (processContent turndown now html sec)) = 1 / 10 \<and>
     confidence (quality (processContent turndown now html sec)) = 1 / 10"
  unfolding quality_processContent by (rule quality_fallback_iff)

theorem fallback_iff_low_score_witness:
  "isFallbackContent (quality (processContent (\<lambda>s. s) now0 ''<p>Loading...</p>'' section0)) \<longleftrightarrow>
     score (quality (processContent (\<lambda>s. s) now0 ''<p>Loading...</p>'' section0)) = 1 / 10 \<and>
     confidence (quality (processContent (\<lambda>s. s) now0 ''<p>Loading...</p>'' section0)) = 1 / 10"
  by (rule fallback_iff_low_score)

subsection \<open>Keywords and related sections\<close>

lemma set_add_distinct: "distinct xs \<Longrightarrow> distinct (set_add x xs)"
  by (simp add: set_add_def)

lemma set_add_prefix: "\<exists>ys. set_add x xs = xs @ ys"
  by (simp add: set_add_def)

lemma set_add_mem: "x \<in> set (set_add x xs)"
  by (simp add: set_add_def)

lemma set_add_length: "length (set_add x xs) \<le> Suc (length xs)"
  by (simp add: set_add_def)

lemma foldl_add_distinct:
  "distinct ks \<Longrightarrow>
   distinct (foldl (\<lambda>keywords word. if P word then set_add (h word) keywords else keywords) ks ws)"
  by (induction ws arbitrary: ks) (simp_all add: set_add_distinct)

lemma foldl_add_prefix:
  "\<exists>ys. foldl (\<lambda>keywords word. if P word then set_add (h word) keywords else keywords) ks ws
       = ks @ ys"
proof (induction ws arbitrary: ks)
  case Nil
  show ?case by simp
next
  case (Cons w ws)
  let ?F = "\<lambda>keywords word. if P word then set_add (h word) keywords else keywords"
  have "\<exists>y1. ?F ks w = ks @ y1" by (simp add: set_add_def)
  then obtain y1 where y1: "?F ks w = ks @ y1" ..
  from Cons.IH[of "ks @ y1"] obtain y2 where y2: "foldl ?F (ks @ y1) ws = (ks @ y1) @ y2" ..
  have "foldl ?F ks (w # ws) = foldl ?F (?F ks w) ws" by (rule foldl_Cons)
  also have "\<dots> = ks @ (y1 @ y2)" unfolding y1 y2 by (rule append_assoc)
  finally show ?case by (rule exI)
qed

definition seeds :: "HIGSection \<Rightarrow> string list" where
  "seeds section =
     set_add (toLowerCase (category section))
       (set_add (toLowerCase (platform section)) (set_add (toLowerCase (title section)) []))"

lemma set_add_mono: "y \<in> set xs \<Longrightarrow> y \<in> set (set_add x xs)"
  by (simp add: set_add_def)

lemma seeds_props:
  "distinct (seeds s)" "length (seeds s) \<le> 3"
  "toLowerCase (title s) \<in> set (seeds s)" "toLowerCase (platform s) \<in> set (seeds s)"
  "toLowerCase (category s) \<in> set (seeds s)"
proof -
  let ?a = "set_add (toLowerCase (title s)) []"
  let ?b = "set_add (toLowerCase (platform s)) ?a"
  have s: "seeds s = set_add (toLowerCase (category s)) ?b" by (simp only: seeds_def)
  have "distinct ?a" by (rule set_add_distinct) simp
  then have "distinct ?b" by (rule set_add_distinct)
  then show "distinct (seeds s)" unfolding s by (rule set_add_distinct)
  have "length ?a \<le> 1" using set_add_length[of "toLowerCase (title s)" "[]"] by simp
  then have "length ?b \<le> 2" using set_add_length[of "toLowerCase (platform s)" ?a] by linarith
  then show "length (seeds s) \<le> 3"
    unfolding s using set_add_length[of "toLowerCase (category s)" ?b] by linarith
  have "toLowerCase (title s) \<in> set ?a" by (rule set_add_mem)
  then have "toLowerCase (title s) \<in> set ?b" by (rule set_add_mono)
  then show "toLowerCase (title s) \<in> set (seeds s)" unfolding s by (rule set_add_mono)
  have "toLowerCase (platform s) \<in> set ?b" by (rule set_add_mem)
  then show "toLowerCase (platform s) \<in> set (seeds s)" unfolding s by (rule set_add_mono)
  show "toLowerCase (category s) \<in> set (seeds s)" unfolding s by (rule set_add_mem)
qed

lemma extractKeywords_shape:
  "\<exists>ys. distinct (seeds s @ ys) \<and> extractKeywords c s = take 20 (seeds s @ ys)"
proof -
  let ?ws = "matchAll fl_g (Seqs [Wordb, AtLeast 3 lowerAZ, Wordb]) (toLowerCase c)"
  let ?r = "foldl (\<lambda>keywords word. if word \<in> set appleDesignTerms then set_add word keywords else keywords) (seeds s) ?ws"
  obtain ys where ys: "?r = seeds s @ ys"
    using foldl_add_prefix[of "\<lambda>w. w \<in> set appleDesignTerms" "\<lambda>w. w" "seeds s" ?ws] by auto
  have "distinct ?r"
    using foldl_add_distinct[of "seeds s" "\<lambda>w. w \<in> set appleDesignTerms" "\<lambda>w. w" ?ws]
    by (simp add: seeds_props)
  moreover have "extractKeywords c s = take 20 ?r"
    by (simp only: extractKeywords_def seeds_def Let_def)
  ultimately show ?thesis unfolding ys by (intro exI[of _ ys] conjI)
qed

lemma extractRelatedSections_shape:
  "\<exists>xs. distinct xs \<and> extractRelatedSections c s = take 5 xs"
proof (cases "matchFirst fl_i
           (Seqs [Lit ''see also'', Plus (Cls False [Chars '':'', Spc]), Grp 1 (LazyStar Dot),
                  Alt (Chr (CHR 0x0A)) Eol]) c")
  case None
  have "extractRelatedSections c s = take 5 []"
    by (simp only: extractRelatedSections_def Let_def None option.case)
  then show ?thesis by (intro exI[of _ "[]"]) simp
next
  case (Some mg)
  obtain m g where mg: "mg = (m, g)" by (cases mg) auto
  let ?links = "matchAll fl_g (Seqs [Chr CHR ''['', Grp 1 (Plus (Not CHR '']'')), Chr CHR '']'']) (grp g 1)"
  let ?r = "foldl (\<lambda>related link. set_add (slice_1_m1 link) related) [] ?links"
  have "distinct ?r"
    using foldl_add_distinct[of "[]" "\<lambda>w. True" slice_1_m1 ?links] by simp
  moreover have "extractRelatedSections c s = take 5 ?r"
    by (simp only: extractRelatedSections_def Let_def Some mg option.case prod.case)
  ultimately show ?thesis by (intro exI[of _ ?r] conjI)
qed



lemma keywords_processContent:
  "keywords (processContent turndown now html sec) =
     extractKeywords (cleanMarkdown (turndown (cleanHtml html))) sec"
  unfolding processContent_def Let_def ProcessedContent.simps by (rule refl)

lemma related_processContent:
  "relatedSections (processContent turndown now html sec) =
     extractRelatedSections (cleanMarkdown (turndown (cleanHtml html))) sec"
  unfolding processContent_def Let_def ProcessedContent.simps by (rule refl)

text \<open>
  Claim C8. For every input, there are at most 20 keywords and at most 5 related sections,
  neither list has a duplicate, and the keywords contain the lowercased title, platform
  and category of the section.
\<close>

theorem keywords_related_bounded:
  "length (keywords (processContent turndown now html sec)) \<le> 20 \<and>
   length (relatedSections (processContent turndown now html sec)) \<le> 5 \<and>
   distinct (keywords (processContent turndown now html sec)) \<and>
   distinct (relatedSections (processContent turndown now html sec)) \<and>
   toLowerCase (title sec) \<in> set (keywords (processContent turndown now html sec)) \<and>
   toLowerCase (platform sec) \<in> set (keywords (processContent turndown now html sec)) \<and>
   toLowerCase (category sec) \<in> set (keywords (processContent turndown now html sec))"
proof -
  let ?md = "cleanMarkdown (turndown (cleanHtml html))"
  obtain ys where ys: "distinct (seeds sec @ ys)"
    "extractKeywords ?md sec = take 20 (seeds sec @ ys)"
    using extractKeywords_shape by blast
  obtain xs where xs: "distinct xs" "extractRelatedSections ?md sec = take 5 xs"
    using extractRelatedSections_shape by blast
  have len: "length (seeds sec) \<le> 3" by (rule seeds_props)
  have "take 20 (seeds sec @ ys) = seeds sec @ take (20 - length (seeds sec)) ys"
    using len by simp
  then have mem: "x \<in> set (seeds sec) \<Longrightarrow> x \<in> set (take 20 (seeds sec @ ys))" for x
    by simp
  have d1: "distinct (take 20 (seeds sec @ ys))" using ys(1) by (rule distinct_take)
  have d2: "distinct (take 5 xs)" using xs(1) by (rule distinct_take)
  have l1: "length (take 20 (seeds sec @ ys)) \<le> 20" and l2: "length (take 5 xs) \<le> 5"
    by simp_all
  show ?thesis
    unfolding keywords_processContent related_processContent ys(2) xs(2)
    by (intro conjI l1 l2 d1 d2 mem seeds_props(3-5))
qed

theorem keywords_related_bounded_witness:
  "length (keywords (processContent (\<lambda>s. s) now0 ''<p>Buttons</p>'' section0)) \<le> 20 \<and>
   length (relatedSections (processContent (\<lambda>s. s) now0 ''<p>Buttons</p>'' section0)) \<le> 5 \<and>
   distinct (keywords (processContent (\<lambda>s. s) now0 ''<p>Buttons</p>'' section0)) \<and>
   distinct (relatedSections (processContent (\<lambda>s. s) now0 ''<p>Buttons</p>'' section0)) \<and>
   toLowerCase (title section0) \<in>
     set (keywords (processContent (\<lambda>s. s) now0 ''<p>Buttons</p>'' section0)) \<and>
   toLowerCase (platform section0) \<in>
     set (keywords (processContent (\<lambda>s. s) now0 ''<p>Buttons</p>'' section0)) \<and>
   toLowerCase (category section0) \<in>
     set (keywords (processContent (\<lambda>s. s) now0 ''<p>Buttons</p>'' section0))"
  by (rule keywords_related_bounded)

end
